theory Spec2Isabelle
  imports Main "HOL-Library.Sublist"
begin

section \<open>Strings, dictionaries and exceptions of the script\<close>

text \<open>
  A Python \<open>str\<close> is a sequence of Unicode code points. It is modelled as the list of
  its code points, so that the localized titles are the strings of the source and not
  an encoding of them. \<open>lit\<close> reads an ASCII literal.
\<close>

type_synonym pychar = nat
type_synonym pystr = "pychar list"

definition lit :: "string \<Rightarrow> pystr" where
  "lit cs = map of_char cs"

text \<open>\<open>sub in s\<close>: \<open>sub\<close> occurs in \<open>s\<close> as a contiguous substring.\<close>

fun is_prefix :: "pystr \<Rightarrow> pystr \<Rightarrow> bool" where
  "is_prefix [] s = True"
| "is_prefix (a # as) [] = False"
| "is_prefix (a # as) (c # cs) = (a = c \<and> is_prefix as cs)"

fun contains :: "pystr \<Rightarrow> pystr \<Rightarrow> bool" where
  "contains sub [] = (sub = [])"
| "contains sub (c # cs) = (is_prefix sub (c # cs) \<or> contains sub cs)"

text \<open>\<open>s.split(sep)\<close> for a separator of one character: never an empty list.\<close>

fun split :: "pychar \<Rightarrow> pystr \<Rightarrow> pystr list" where
  "split sep [] = [[]]"
| "split sep (c # cs) =
     (if c = sep then [] # split sep cs
      else (let r = split sep cs in (c # hd r) # tl r))"

text \<open>\<open>s.rfind(c)\<close> for one character: the last index of \<open>c\<close>, or \<open>-1\<close>.\<close>

fun rfind :: "pychar \<Rightarrow> pystr \<Rightarrow> int" where
  "rfind c [] = - 1"
| "rfind c (x # xs) =
     (let r = rfind c xs in if 0 \<le> r then r + 1 else if x = c then 0 else - 1)"

text \<open>
  \<open>s.replace(old, new)\<close>: the occurrences of \<open>old\<close> are found from the left, without
  overlap, in one pass. An empty \<open>old\<close> matches before every character and at the end.
\<close>

function replace :: "pystr \<Rightarrow> pystr \<Rightarrow> pystr \<Rightarrow> pystr" where
  "replace old new s =
     (if old = [] then new @ concat (map (\<lambda>c. c # new) s)
      else if s = [] then []
      else if is_prefix old s then new @ replace old new (drop (length old) s)
      else hd s # replace old new (tl s))"
  by pat_completeness auto
termination
  by (relation "measure (\<lambda>(old, new, s). length s)") auto

text \<open>\<open>s.lstrip(c)\<close> for one character.\<close>

definition lstrip :: "pychar \<Rightarrow> pystr \<Rightarrow> pystr" where
  "lstrip c s = dropWhile (\<lambda>x. x = c) s"

text \<open>The slice \<open>s[i:j]\<close> for \<open>0 \<le> i \<le> j\<close>; it is cut at the end of \<open>s\<close>.\<close>

definition slice :: "pystr \<Rightarrow> nat \<Rightarrow> nat \<Rightarrow> pystr" where
  "slice s i j = take (j - i) (drop i s)"

text \<open>
  The exceptions the script can meet. \<open>Raised msg\<close> is an exception of the imaging
  library or of the file system, whose text is \<open>msg\<close>; all three are subclasses of
  \<open>Exception\<close>.
\<close>

datatype exn = KeyError pystr | ValueError pystr | Raised pystr

text \<open>Sequencing: an exception raised by the first step leaves the function.\<close>

definition and_then :: "exn + 'a \<Rightarrow> ('a \<Rightarrow> exn + 'b) \<Rightarrow> exn + 'b" where
  "and_then m f = (case m of Inl e \<Rightarrow> Inl e | Inr x \<Rightarrow> f x)"

text \<open>
  A dictionary literal is the list of its items; the literals of the script have no
  key twice. \<open>d[k]\<close> raises \<open>KeyError\<close> on a missing key, \<open>d.get(k, default)\<close>
  does not.
\<close>

type_synonym ('k, 'v) dict = "('k \<times> 'v) list"

definition dict_item :: "(pystr, 'v) dict \<Rightarrow> pystr \<Rightarrow> exn + 'v" where
  "dict_item d k = (case map_of d k of None \<Rightarrow> Inl (KeyError k) | Some v \<Rightarrow> Inr v)"

definition dict_get :: "('k, 'v) dict \<Rightarrow> 'k \<Rightarrow> 'v \<Rightarrow> 'v" where
  "dict_get d k dflt = (case map_of d k of None \<Rightarrow> dflt | Some v \<Rightarrow> v)"

section \<open>Configuration\<close>

definition BACKGROUND_COLORS :: "(pystr, pystr) dict" where
  "BACKGROUND_COLORS = [(lit ''light'', lit ''#007AFF''), (lit ''dark'', lit ''#1C1C1E'')]"

definition PADDING :: int where "PADDING = 100"
definition TITLE_PADDING :: int where "TITLE_PADDING = 80"
definition FONT_SIZE :: int where "FONT_SIZE = 72"

text \<open>
  The localized titles, one table for each language. A title that is not ASCII is
  written as its code points.
\<close>

definition TITLES_en_US :: "(pystr, pystr) dict" where
  "TITLES_en_US =
    [(lit ''01_NearbyTab'', lit ''Discover Nearby Devices''),
     (lit ''02_NearbyTabGrid'', lit ''Grid View''),
     (lit ''03_ConnectedTab'', lit ''Active Connections''),
     (lit ''04_ConnectionView'', lit ''Connection Details''),
     (lit ''05_ChatView'', lit ''Secure Chat''),
     (lit ''06_VoiceCallView'', lit ''Voice Call''),
     (lit ''07_LibraryTab'', lit ''Device Library''),
     (lit ''08_Settings'', lit ''Settings''),
     (lit ''09_QuickConnect'', lit ''Quick Connect''),
     (lit ''10_FileTransfer'', lit ''File Transfer''),
     (lit ''11_TransferHistory'', lit ''Transfer History''),
     (lit ''12_UserProfile'', lit ''User Profile''),
     (lit ''13_GroupDetail'', lit ''Group Details'')]"

definition TITLES_zh_Hant :: "(pystr, pystr) dict" where
  "TITLES_zh_Hant =
    [(lit ''01_NearbyTab'', [30332, 29694, 38468, 36817, 35037, 32622]),
     (lit ''02_NearbyTabGrid'', [32178, 26684, 27298, 35222]),
     (lit ''03_ConnectedTab'', [24050, 36899, 25509, 35037, 32622]),
     (lit ''04_ConnectionView'', [36899, 25509, 35443, 24773]),
     (lit ''05_ChatView'', [23433, 20840, 32842, 22825]),
     (lit ''06_VoiceCallView'', [35486, 38899, 36890, 35441]),
     (lit ''07_LibraryTab'', [35037, 32622, 36039, 26009, 24235]),
     (lit ''08_Settings'', [35373, 23450]),
     (lit ''09_QuickConnect'', [24555, 36895, 36899, 25509]),
     (lit ''10_FileTransfer'', [27284, 26696, 20659, 36664]),
     (lit ''11_TransferHistory'', [20659, 36664, 32000, 37636]),
     (lit ''12_UserProfile'', [20351, 29992, 32773, 36039, 26009]),
     (lit ''13_GroupDetail'', [32676, 32068, 35443, 24773])]"

definition TITLES_zh_Hans :: "(pystr, pystr) dict" where
  "TITLES_zh_Hans =
    [(lit ''01_NearbyTab'', [21457, 29616, 38468, 36817, 35774, 22791]),
     (lit ''02_NearbyTabGrid'', [32593, 26684, 35270, 22270]),
     (lit ''03_ConnectedTab'', [24050, 36830, 25509, 35774, 22791]),
     (lit ''04_ConnectionView'', [36830, 25509, 35814, 24773]),
     (lit ''05_ChatView'', [23433, 20840, 32842, 22825]),
     (lit ''06_VoiceCallView'', [35821, 38899, 36890, 35805]),
     (lit ''07_LibraryTab'', [35774, 22791, 24211]),
     (lit ''08_Settings'', [35774, 32622]),
     (lit ''09_QuickConnect'', [24555, 36895, 36830, 25509]),
     (lit ''10_FileTransfer'', [25991, 20214, 20256, 36755]),
     (lit ''11_TransferHistory'', [20256, 36755, 35760, 24405]),
     (lit ''12_UserProfile'', [29992, 25143, 36164, 26009]),
     (lit ''13_GroupDetail'', [32676, 32452, 35814, 24773])]"

definition TITLES_ja :: "(pystr, pystr) dict" where
  "TITLES_ja =
    [(lit ''01_NearbyTab'', [36817, 12367, 12398, 12487, 12496, 12452, 12473, 12434, 30330, 35211]),
     (lit ''02_NearbyTabGrid'', [12464, 12522, 12483, 12489, 34920, 31034]),
     (lit ''03_ConnectedTab'', [12450, 12463, 12486, 12451, 12502, 12394, 25509, 32154]),
     (lit ''04_ConnectionView'', [25509, 32154, 12398, 35443, 32048]),
     (lit ''05_ChatView'', [12475, 12461, 12517, 12450, 12481, 12515, 12483, 12488]),
     (lit ''06_VoiceCallView'', [38899, 22768, 36890, 35441]),
     (lit ''07_LibraryTab'', [12487, 12496, 12452, 12473, 12521, 12452, 12502, 12521, 12522]),
     (lit ''08_Settings'', [35373, 23450]),
     (lit ''09_QuickConnect'', [12463, 12452, 12483, 12463, 25509, 32154]),
     (lit ''10_FileTransfer'', [12501, 12449, 12452, 12523, 36578, 36865]),
     (lit ''11_TransferHistory'', [36578, 36865, 23653, 27508]),
     (lit ''12_UserProfile'', [12518, 12540, 12470, 12540, 12503, 12525, 12501, 12451, 12540, 12523]),
     (lit ''13_GroupDetail'', [12464, 12523, 12540, 12503, 35443, 32048])]"

definition TITLES_ko :: "(pystr, pystr) dict" where
  "TITLES_ko =
    [(lit ''01_NearbyTab'', [51452, 48320, 32, 44592, 44592, 32, 48156, 44204]),
     (lit ''02_NearbyTabGrid'', [44536, 47532, 46300, 32, 48372, 44592]),
     (lit ''03_ConnectedTab'', [54876, 49457, 32, 50672, 44208]),
     (lit ''04_ConnectionView'', [50672, 44208, 32, 49345, 49464]),
     (lit ''05_ChatView'', [48372, 50504, 32, 52292, 54021]),
     (lit ''06_VoiceCallView'', [51020, 49457, 32, 53685, 54868]),
     (lit ''07_LibraryTab'', [44592, 44592, 32, 46972, 51060, 48652, 47084, 47532]),
     (lit ''08_Settings'', [49444, 51221]),
     (lit ''09_QuickConnect'', [48736, 47480, 32, 50672, 44208]),
     (lit ''10_FileTransfer'', [54028, 51068, 32, 51204, 49569]),
     (lit ''11_TransferHistory'', [51204, 49569, 32, 44592, 47197]),
     (lit ''12_UserProfile'', [49324, 50857, 51088, 32, 54532, 47196, 54596]),
     (lit ''13_GroupDetail'', [44536, 47353, 32, 49345, 49464])]"

definition TITLES :: "(pystr, (pystr, pystr) dict) dict" where
  "TITLES =
    [(lit ''en-US'', TITLES_en_US),
     (lit ''zh-Hant'', TITLES_zh_Hant),
     (lit ''zh-Hans'', TITLES_zh_Hans),
     (lit ''ja'', TITLES_ja),
     (lit ''ko'', TITLES_ko)]"

section \<open>Paths\<close>

text \<open>
  \<open>Path(p).name\<close> on a POSIX path: the last component of \<open>p\<close>, where the components
  are what stands between the slashes, the empty ones and \<open>.\<close> left out; it is empty
  when there is none.
\<close>

definition path_parts :: "pystr \<Rightarrow> pystr list" where
  "path_parts p = filter (\<lambda>x. x \<noteq> [] \<and> x \<noteq> lit ''.'') (split 47 p)"

definition path_name :: "pystr \<Rightarrow> pystr" where
  "path_name p = (let parts = path_parts p in if parts = [] then [] else last parts)"

text \<open>
  \<open>.stem\<close> of a path whose name is \<open>name\<close>: the name without its last suffix. The
  suffix starts at the last dot, unless that dot is the first or the last character
  (\<open>0 < i < len(name) - 1\<close> for \<open>i = name.rfind('.')\<close>).
\<close>

definition stem_of_name :: "pystr \<Rightarrow> pystr" where
  "stem_of_name name =
     (let i = rfind 46 name
      in if 0 < i \<and> i < int (length name) - 1 then take (nat i) name else name)"

definition path_stem :: "pystr \<Rightarrow> pystr" where
  "path_stem p = stem_of_name (path_name p)"

section \<open>Title lookup\<close>

text \<open>
  The key of a screenshot as it stands before \<open>_Dark\<close> is taken out of it: the part of
  the stem after the last hyphen, the whole stem when there is no hyphen.
\<close>

definition key_part :: "pystr \<Rightarrow> pystr" where
  "key_part filename =
     (let base = path_stem filename;
          parts = split 45 base
      in if 2 \<le> length parts then last parts else base)"

definition screenshot_key :: "pystr \<Rightarrow> pystr" where
  "screenshot_key filename = replace (lit ''_Dark'') [] (key_part filename)"

text \<open>
  The table of the language, the table of \<open>en-US\<close> when the language has none. The
  fallback \<open>TITLES['en-US']\<close> is evaluated before the lookup, so a missing \<open>en-US\<close>
  table would raise for every language.
\<close>

definition lang_titles :: "pystr \<Rightarrow> exn + (pystr, pystr) dict" where
  "lang_titles language =
     and_then (dict_item TITLES (lit ''en-US''))
       (\<lambda>fallback. Inr (dict_get TITLES language fallback))"

definition get_title_for_screenshot :: "pystr \<Rightarrow> pystr \<Rightarrow> exn + pystr" where
  "get_title_for_screenshot filename language =
     (let key = screenshot_key filename
      in and_then (lang_titles language) (\<lambda>titles. Inr (dict_get titles key [])))"

section \<open>Colours\<close>

text \<open>
  \<open>int(s, 16)\<close> on a string of hexadecimal digits. Python also reads a sign, blanks
  around the number, a prefix \<open>0x\<close> and underscores between digits; the script calls
  it on slices of the two colour constants only, and the model raises \<open>ValueError\<close>
  on every string that is not made of hexadecimal digits.
\<close>

definition hex_digit :: "pychar \<Rightarrow> int option" where
  "hex_digit c =
     (if 48 \<le> c \<and> c \<le> 57 then Some (int c - 48)
      else if 97 \<le> c \<and> c \<le> 102 then Some (int c - 87)
      else if 65 \<le> c \<and> c \<le> 70 then Some (int c - 55)
      else None)"

fun hex_value :: "int \<Rightarrow> pystr \<Rightarrow> int option" where
  "hex_value acc [] = Some acc"
| "hex_value acc (c # cs) =
     (case hex_digit c of None \<Rightarrow> None | Some d \<Rightarrow> hex_value (16 * acc + d) cs)"

definition int16 :: "pystr \<Rightarrow> exn + int" where
  "int16 s =
     (if s = [] then Inl (ValueError s)
      else case hex_value 0 s of None \<Rightarrow> Inl (ValueError s) | Some v \<Rightarrow> Inr v)"

type_synonym rgb = "int \<times> int \<times> int"

definition hex_to_rgb :: "pystr \<Rightarrow> exn + rgb" where
  "hex_to_rgb hex_color =
     (let h = lstrip 35 hex_color
      in and_then (int16 (slice h 0 2)) (\<lambda>r.
         and_then (int16 (slice h 2 4)) (\<lambda>g.
         and_then (int16 (slice h 4 6)) (\<lambda>b.
         Inr (r, g, b)))))"

section \<open>Images, fonts and the file system\<close>

text \<open>
  The script reads nothing of a screenshot but its size. The output is described by
  what the script does to it: the canvas it creates, the text it draws and the
  screenshot it pastes.
\<close>

record image =
  im_size :: "int \<times> int"

record 'font canvas =
  c_size :: "int \<times> int"
  c_fill :: rgb
  c_text :: "((int \<times> int) \<times> pystr \<times> 'font) option"
  c_paste :: "(image \<times> (int \<times> int)) option"

text \<open>
  A line of standard output, one constructor for each \<open>print\<close> of
  \<open>process_screenshots\<close>, with the values the line is built from: the directory that
  was not found, the language of a directory, the name of a framed file, the name of a
  file that failed with its exception, and the two counts at the end.
\<close>

datatype line =
    NotFound pystr
  | Processing pystr
  | is_Framed: Framed pystr
  | is_Failed: Failed pystr exn
  | Done int int

text \<open>An entry of the screenshots directory, and the names its \<open>glob('*.png')\<close> yields.\<close>

record lang_dir =
  d_name :: pystr
  d_is_dir :: bool
  d_png :: "pystr list"

text \<open>
  What the script asks of the imaging library, of the fonts and of the file system.
  A call that can raise returns the exception; creating the canvas, drawing on it and
  pasting into it are taken not to raise. Sizes and bounding boxes are integers.
  \<open>stdout_write\<close> gives the exception that \<open>print\<close> raises on a line, if it raises
  one, as standard output does on a character it cannot encode; a \<open>print\<close> that
  raises writes nothing. \<open>unicode_lower\<close> is \<open>str.lower\<close> on the strings that hold
  a character outside ASCII, where the result comes from the Unicode character tables.
\<close>

record 'font env =
  path_exists :: "pystr \<Rightarrow> bool"
  truetype :: "pystr \<Rightarrow> int \<Rightarrow> exn + 'font"
  load_default :: "exn + 'font"
  image_open :: "pystr \<Rightarrow> exn + image"
  textbbox :: "pystr \<Rightarrow> 'font \<Rightarrow> exn + (int \<times> int \<times> int \<times> int)"
  image_save :: "pystr \<Rightarrow> 'font canvas \<Rightarrow> exn option"
  iterdir :: "pystr \<Rightarrow> exn + lang_dir list"
  stdout_write :: "line \<Rightarrow> exn option"
  unicode_lower :: "pystr \<Rightarrow> pystr"

fun is_ascii :: "pystr \<Rightarrow> bool" where
  "is_ascii [] = True"
| "is_ascii (c # cs) = (c < 128 \<and> is_ascii cs)"

definition ascii_lower :: "pychar \<Rightarrow> pychar" where
  "ascii_lower c = (if 65 \<le> c \<and> c \<le> 90 then c + 32 else c)"

definition lower :: "'font env \<Rightarrow> pystr \<Rightarrow> pystr" where
  "lower env s = (if is_ascii s then map ascii_lower s else unicode_lower env s)"

text \<open>
  \<open>str(p / name)\<close> for a path \<open>p\<close> whose \<open>str\<close> is \<open>d\<close> and a name of one
  component.
\<close>

definition joinpath :: "pystr \<Rightarrow> pystr \<Rightarrow> pystr" where
  "joinpath d name =
     (if d = lit ''.'' then name
      else if d \<noteq> [] \<and> last d = 47 then d @ name
      else d @ lit ''/'' @ name)"

section \<open>Fonts\<close>

definition font_paths :: "pystr list" where
  "font_paths =
     [lit ''/System/Library/Fonts/SFNS.ttf'',
      lit ''/System/Library/Fonts/SFNSDisplay.ttf'',
      lit ''/System/Library/Fonts/Helvetica.ttc'',
      lit ''/Library/Fonts/Arial.ttf'']"

text \<open>
  The loop of \<open>get_font\<close>: the first font file that exists and loads; a file that
  fails to load is passed over, whatever it raised.
\<close>

fun get_font_from :: "'font env \<Rightarrow> int \<Rightarrow> pystr list \<Rightarrow> exn + 'font" where
  "get_font_from env sz [] = load_default env"
| "get_font_from env sz (font_path # rest) =
     (if path_exists env font_path
      then (case truetype env font_path sz of
              Inr font \<Rightarrow> Inr font
            | Inl e \<Rightarrow> get_font_from env sz rest)
      else get_font_from env sz rest)"

definition get_font :: "'font env \<Rightarrow> int \<Rightarrow> exn + 'font" where
  "get_font env sz = get_font_from env sz font_paths"

section \<open>Framing one screenshot\<close>

definition Image_new :: "int \<times> int \<Rightarrow> rgb \<Rightarrow> 'font canvas" where
  "Image_new sz color = \<lparr>c_size = sz, c_fill = color, c_text = None, c_paste = None\<rparr>"

text \<open>
  \<open>frame_screenshot\<close> returns \<open>True\<close> once the output is saved; the model returns the
  canvas that was saved, or the exception that was raised on the way.
\<close>

definition frame_screenshot ::
  "'font env \<Rightarrow> pystr \<Rightarrow> pystr \<Rightarrow> pystr \<Rightarrow> exn + 'font canvas" where
  "frame_screenshot env input_path output_path language =
     (let is_dark = contains (lit ''_Dark'') input_path
      in and_then (dict_item BACKGROUND_COLORS (if is_dark then lit ''dark'' else lit ''light''))
           (\<lambda>hex_color.
         and_then (hex_to_rgb hex_color) (\<lambda>bg_color.
         and_then (image_open env input_path) (\<lambda>screenshot.
         and_then (get_title_for_screenshot input_path language) (\<lambda>title.
         let ss_width = fst (im_size screenshot);
             ss_height = snd (im_size screenshot);
             output_width = ss_width + (PADDING * 2);
             title_height = (if title \<noteq> [] then TITLE_PADDING + FONT_SIZE + TITLE_PADDING else 0);
             output_height = ss_height + title_height + PADDING;
             output = Image_new (output_width, output_height) bg_color
         in and_then
              (if title \<noteq> []
               then and_then (get_font env FONT_SIZE) (\<lambda>font.
                    and_then (textbbox env title font) (\<lambda>bbox.
                    let text_width = fst (snd (snd bbox)) - fst bbox;
                        text_x = (output_width - text_width) div 2;
                        text_y = TITLE_PADDING
                    in Inr (output\<lparr>c_text := Some ((text_x, text_y), title, font)\<rparr>)))
               else Inr output)
              (\<lambda>drawn.
            let screenshot_x = PADDING;
                screenshot_y = title_height;
                pasted = drawn\<lparr>c_paste := Some (screenshot, (screenshot_x, screenshot_y))\<rparr>
            in case image_save env output_path pasted of
                 Some e \<Rightarrow> Inl e
               | None \<Rightarrow> Inr pasted))))))"

section \<open>The batch\<close>

text \<open>
  What a run leaves behind: the two counts, the lines printed, the calls of
  \<open>frame_screenshot\<close> with their arguments (input path, output path, language), and
  the outputs saved.
\<close>

record 'font state =
  processed :: int
  skipped :: int
  stdout :: "line list"
  submitted :: "(pystr \<times> pystr \<times> pystr) list"
  saved :: "(pystr \<times> 'font canvas) list"

text \<open>
  The body of the inner loop, for the file \<open>name\<close> of the directory \<open>dir\<close>. The
  \<open>try\<close> block holds the call of \<open>frame_screenshot\<close>, the \<open>print\<close> of the success
  line and the increment of \<open>processed\<close>: an exception of the call or of that
  \<open>print\<close> goes to the \<open>except\<close> branch. The \<open>print\<close> of the \<open>except\<close> branch is not
  guarded: its exception ends the run. The result is the exception that ends the run,
  if any, and the state reached.
\<close>

definition process_file ::
  "'font env \<Rightarrow> pystr \<Rightarrow> pystr \<Rightarrow> pystr \<Rightarrow> 'font state \<Rightarrow> exn option \<times> 'font state" where
  "process_file env dir language name st =
     (if contains (lit ''_framed'') name then (None, st)
      else if contains (lit ''background'') (lower env name) then (None, st)
      else
        let output_name = stem_of_name name @ lit ''_framed.png'';
            output_path = joinpath dir output_name;
            called = st\<lparr>submitted := submitted st @ [(joinpath dir name, output_path, language)]\<rparr>;
            try_block =
              (case frame_screenshot env (joinpath dir name) output_path language of
                 Inl e \<Rightarrow> Inl (e, called)
               | Inr out \<Rightarrow>
                   let written = called\<lparr>saved := saved called @ [(output_path, out)]\<rparr>
                   in (case stdout_write env (Framed name) of
                         Some e \<Rightarrow> Inl (e, written)
                       | None \<Rightarrow>
                           Inr (written\<lparr>stdout := stdout written @ [Framed name],
                                        processed := processed written + 1\<rparr>)))
        in case try_block of
             Inr st' \<Rightarrow> (None, st')
           | Inl (e, st') \<Rightarrow>
               (case stdout_write env (Failed name e) of
                  Some e' \<Rightarrow> (Some e', st')
                | None \<Rightarrow>
                    (None, st'\<lparr>stdout := stdout st' @ [Failed name e],
                                skipped := skipped st' + 1\<rparr>)))"

fun process_files ::
  "'font env \<Rightarrow> pystr \<Rightarrow> pystr \<Rightarrow> pystr list \<Rightarrow> 'font state \<Rightarrow> exn option \<times> 'font state" where
  "process_files env dir language [] st = (None, st)"
| "process_files env dir language (name # rest) st =
     (case process_file env dir language name st of
        (Some e, st') \<Rightarrow> (Some e, st')
      | (None, st') \<Rightarrow> process_files env dir language rest st')"

text \<open>The body of the outer loop, for one entry of the screenshots directory.\<close>

definition process_lang_dir ::
  "'font env \<Rightarrow> pystr \<Rightarrow> lang_dir \<Rightarrow> 'font state \<Rightarrow> exn option \<times> 'font state" where
  "process_lang_dir env screenshots_path d st =
     (if \<not> d_is_dir d then (None, st)
      else
        let language = d_name d
        in case stdout_write env (Processing language) of
             Some e \<Rightarrow> (Some e, st)
           | None \<Rightarrow>
               process_files env (joinpath screenshots_path (d_name d)) language (d_png d)
                 (st\<lparr>stdout := stdout st @ [Processing language]\<rparr>))"

fun process_lang_dirs ::
  "'font env \<Rightarrow> pystr \<Rightarrow> lang_dir list \<Rightarrow> 'font state \<Rightarrow> exn option \<times> 'font state" where
  "process_lang_dirs env screenshots_path [] st = (None, st)"
| "process_lang_dirs env screenshots_path (d # ds) st =
     (case process_lang_dir env screenshots_path d st of
        (Some e, st') \<Rightarrow> (Some e, st')
      | (None, st') \<Rightarrow> process_lang_dirs env screenshots_path ds st')"

text \<open>
  \<open>screenshots_path\<close> is the \<open>str\<close> of \<open>Path(screenshots_dir)\<close>. The result is the
  value returned, or the exception that left the function, and the state reached.
  Listing the directory and printing are not guarded.
\<close>

definition process_screenshots ::
  "'font env \<Rightarrow> pystr \<Rightarrow> (exn + bool) \<times> 'font state" where
  "process_screenshots env screenshots_path =
     (let st0 = \<lparr>processed = 0, skipped = 0, stdout = [], submitted = [], saved = []\<rparr>
      in if \<not> path_exists env screenshots_path
         then (case stdout_write env (NotFound screenshots_path) of
                 Some e \<Rightarrow> (Inl e, st0)
               | None \<Rightarrow> (Inr False, st0\<lparr>stdout := [NotFound screenshots_path]\<rparr>))
         else case iterdir env screenshots_path of
                Inl e \<Rightarrow> (Inl e, st0)
              | Inr entries \<Rightarrow>
                  (case process_lang_dirs env screenshots_path entries st0 of
                     (Some e, st) \<Rightarrow> (Inl e, st)
                   | (None, st) \<Rightarrow>
                       (case stdout_write env (Done (processed st) (skipped st)) of
                          Some e \<Rightarrow> (Inl e, st)
                        | None \<Rightarrow>
                            (Inr True,
                             st\<lparr>stdout := stdout st @ [Done (processed st) (skipped st)]\<rparr>))))"

section \<open>Sample runs\<close>

text \<open>
  An environment to run the script in: no system font is installed, so the default
  font is used; every path opens as a screenshot of 1320 by 2868 pixels, except the
  paths that hold \<open>broken\<close>, which are no images; a character of a title is 36
  pixels wide; saving and printing succeed. The directory \<open>screenshots\<close> holds two
  language directories and a file.
\<close>

definition example_env :: "unit env" where
  "example_env =
     \<lparr>path_exists = (\<lambda>p. p = lit ''screenshots''),
      truetype = (\<lambda>p sz. Inl (Raised (lit ''cannot open resource''))),
      load_default = Inr (),
      image_open = (\<lambda>p. if contains (lit ''broken'') p
                          then Inl (Raised (lit ''cannot identify image file''))
                          else Inr \<lparr>im_size = (1320, 2868)\<rparr>),
      textbbox = (\<lambda>t f. Inr (2, 15, 2 + 36 * int (length t), 70)),
      image_save = (\<lambda>p c. None),
      iterdir = (\<lambda>p. Inr
        [\<lparr>d_name = lit ''en-US'', d_is_dir = True,
          d_png = [lit ''iPhone 17 Pro Max-01_NearbyTab.png'',
                   lit ''iPhone 17 Pro Max-01_NearbyTab_framed.png'',
                   lit ''broken.png'',
                   lit ''Background.png'',
                   lit ''iPhone 17 Pro Max-99_Extra.png'']\<rparr>,
         \<lparr>d_name = lit ''README.md'', d_is_dir = False, d_png = []\<rparr>,
         \<lparr>d_name = lit ''ja'', d_is_dir = True,
          d_png = [lit ''iPhone 17 Pro Max-08_Settings_Dark.png'']\<rparr>]),
      stdout_write = (\<lambda>l. None),
      unicode_lower = (\<lambda>s. s)\<rparr>"

text \<open>
  The same environment with a standard output that encodes ASCII only: the lines of a
  framed file and of a failed file start with a check mark and a cross, and printing
  them raises.
\<close>

definition ascii_stdout_env :: "unit env" where
  "ascii_stdout_env =
     example_env
       \<lparr>iterdir := (\<lambda>p. Inr
          [\<lparr>d_name = lit ''en-US'', d_is_dir = True,
            d_png = [lit ''broken.png'', lit ''iPhone 17 Pro Max-01_NearbyTab.png'']\<rparr>]),
        stdout_write := (\<lambda>l. if is_Framed l \<or> is_Failed l
                               then Some (Raised (lit ''UnicodeEncodeError''))
                               else None)\<rparr>"

section \<open>The constant tables never raise\<close>

lemma split_nonempty: "split sep s \<noteq> []"
  by (induction s) (simp_all add: Let_def)

lemma dark_rgb:
  "and_then (dict_item BACKGROUND_COLORS (lit ''dark'')) hex_to_rgb = Inr (28, 28, 30)"
  by (simp add: and_then_def dict_item_def BACKGROUND_COLORS_def lit_def hex_to_rgb_def
      lstrip_def slice_def int16_def hex_digit_def)

lemma light_rgb:
  "and_then (dict_item BACKGROUND_COLORS (lit ''light'')) hex_to_rgb = Inr (0, 122, 255)"
  by (simp add: and_then_def dict_item_def BACKGROUND_COLORS_def lit_def hex_to_rgb_def
      lstrip_def slice_def int16_def hex_digit_def)

lemma lang_titles_eq: "lang_titles language = Inr (dict_get TITLES language TITLES_en_US)"
  by (simp add: lang_titles_def and_then_def dict_item_def TITLES_def lit_def)

lemma get_title_eq:
  "get_title_for_screenshot filename language =
     Inr (dict_get (dict_get TITLES language TITLES_en_US) (screenshot_key filename) [])"
  by (simp add: get_title_for_screenshot_def lang_titles_eq and_then_def)

section \<open>What one call of \<open>frame_screenshot\<close> does\<close>

text \<open>
  With the constants read, \<open>frame_screenshot\<close> depends on the environment in four
  places only: opening the screenshot, loading the font, measuring the title and
  saving the output.
\<close>

lemma frame_screenshot_eq:
  "frame_screenshot env input_path output_path language =
     and_then (image_open env input_path) (\<lambda>screenshot.
     and_then (get_title_for_screenshot input_path language) (\<lambda>title.
       let w = fst (im_size screenshot) + 200;
           th = (if title \<noteq> [] then 232 else 0);
           output = \<lparr>c_size = (w, snd (im_size screenshot) + th + 100),
                     c_fill = (if contains (lit ''_Dark'') input_path
                               then (28, 28, 30) else (0, 122, 255)),
                     c_text = None, c_paste = None\<rparr>
       in and_then
            (if title \<noteq> []
             then and_then (get_font env 72) (\<lambda>font.
                  and_then (textbbox env title font) (\<lambda>bbox.
                  Inr (output\<lparr>c_text :=
                    Some (((w - (fst (snd (snd bbox)) - fst bbox)) div 2, 80), title, font)\<rparr>)))
             else Inr output)
            (\<lambda>drawn.
               case image_save env output_path (drawn\<lparr>c_paste := Some (screenshot, (100, th))\<rparr>) of
                 Some e \<Rightarrow> Inl e
               | None \<Rightarrow> Inr (drawn\<lparr>c_paste := Some (screenshot, (100, th))\<rparr>))))"
proof (cases "contains (lit ''_Dark'') input_path")
  case True
  have "and_then (dict_item BACKGROUND_COLORS (lit ''dark'')) hex_to_rgb = Inr (28, 28, 30)"
    by (rule dark_rgb)
  then show ?thesis using True
    by (auto simp add: frame_screenshot_def Let_def and_then_def Image_new_def
        PADDING_def TITLE_PADDING_def FONT_SIZE_def split: sum.splits option.splits)
next
  case False
  have "and_then (dict_item BACKGROUND_COLORS (lit ''light'')) hex_to_rgb = Inr (0, 122, 255)"
    by (rule light_rgb)
  then show ?thesis using False
    by (auto simp add: frame_screenshot_def Let_def and_then_def Image_new_def
        PADDING_def TITLE_PADDING_def FONT_SIZE_def split: sum.splits option.splits)
qed

lemmas eval_defs =
  lit_def get_title_eq dict_get_def TITLES_def TITLES_en_US_def TITLES_ja_def
  screenshot_key_def key_part_def path_stem_def path_name_def path_parts_def stem_of_name_def
  Let_def and_then_def example_env_def get_font_def font_paths_def

lemma example_light:
  "frame_screenshot example_env (lit ''screenshots/en-US/iPhone 17 Pro Max-01_NearbyTab.png'')
     (lit ''screenshots/en-US/iPhone 17 Pro Max-01_NearbyTab_framed.png'') (lit ''en-US'') =
   Inr \<lparr>c_size = (1520, 3200), c_fill = (0, 122, 255),
        c_text = Some ((346, 80), lit ''Discover Nearby Devices'', ()),
        c_paste = Some (\<lparr>im_size = (1320, 2868)\<rparr>, (100, 232))\<rparr>"
  by (simp add: frame_screenshot_eq eval_defs)

lemma example_dark:
  "frame_screenshot example_env (lit ''screenshots/ja/iPhone 17 Pro Max-08_Settings_Dark.png'')
     (lit ''screenshots/ja/iPhone 17 Pro Max-08_Settings_Dark_framed.png'') (lit ''ja'') =
   Inr \<lparr>c_size = (1520, 3200), c_fill = (28, 28, 30),
        c_text = Some ((724, 80), [35373, 23450], ()),
        c_paste = Some (\<lparr>im_size = (1320, 2868)\<rparr>, (100, 232))\<rparr>"
  by (simp add: frame_screenshot_eq eval_defs)

lemma example_untitled:
  "frame_screenshot example_env (lit ''screenshots/en-US/iPhone 17 Pro Max-99_Extra.png'')
     (lit ''screenshots/en-US/iPhone 17 Pro Max-99_Extra_framed.png'') (lit ''en-US'') =
   Inr \<lparr>c_size = (1520, 2968), c_fill = (0, 122, 255),
        c_text = None,
        c_paste = Some (\<lparr>im_size = (1320, 2868)\<rparr>, (100, 0))\<rparr>"
  by (simp add: frame_screenshot_eq eval_defs)

lemma example_broken:
  "frame_screenshot example_env (lit ''screenshots/en-US/broken.png'')
     (lit ''screenshots/en-US/broken_framed.png'') (lit ''en-US'') =
   Inl (Raised (lit ''cannot identify image file''))"
  by (simp add: frame_screenshot_eq eval_defs)

lemma example_open:
  "image_open example_env (lit ''screenshots/en-US/iPhone 17 Pro Max-01_NearbyTab.png'') =
     Inr \<lparr>im_size = (1320, 2868)\<rparr>"
  by (simp add: example_env_def lit_def)

section \<open>Claims\<close>

text \<open>
  C1. Whenever \<open>frame_screenshot\<close> produces an output for a screenshot, the width of
  the output canvas is the width of the screenshot plus the padding on both sides:
  \<open>output_width = input_width + 2 * PADDING\<close>, where \<open>PADDING = 100\<close>.
\<close>

theorem frame_screenshot_width:
  assumes "image_open env input_path = Inr screenshot"
      and "frame_screenshot env input_path output_path language = Inr out"
  shows "fst (c_size out) = fst (im_size screenshot) + 2 * PADDING \<and> PADDING = 100"
  using assms
  by (auto simp add: frame_screenshot_eq and_then_def Let_def PADDING_def
      split: sum.splits option.splits if_splits)

theorem frame_screenshot_width_witness:
  "image_open example_env (lit ''screenshots/en-US/iPhone 17 Pro Max-01_NearbyTab.png'') =
     Inr \<lparr>im_size = (1320, 2868)\<rparr> \<and>
   frame_screenshot example_env (lit ''screenshots/en-US/iPhone 17 Pro Max-01_NearbyTab.png'')
     (lit ''screenshots/en-US/iPhone 17 Pro Max-01_NearbyTab_framed.png'') (lit ''en-US'') =
     Inr \<lparr>c_size = (1520, 3200), c_fill = (0, 122, 255),
          c_text = Some ((346, 80), lit ''Discover Nearby Devices'', ()),
          c_paste = Some (\<lparr>im_size = (1320, 2868)\<rparr>, (100, 232))\<rparr> \<and>
   (1520 :: int) = 1320 + 2 * PADDING \<and> PADDING = 100"
  using frame_screenshot_width [OF example_open example_light] example_open example_light
  by simp


text \<open>
  C3. When the key extracted from the file name is not in the title table of the
  selected language, \<open>get_title_for_screenshot\<close> returns the empty string and does
  not raise.
\<close>

theorem get_title_unknown_key:
  assumes "lang_titles language = Inr titles"
      and "map_of titles (screenshot_key filename) = None"
  shows "get_title_for_screenshot filename language = Inr []"
  using assms by (simp add: get_title_for_screenshot_def and_then_def dict_get_def)

theorem get_title_unknown_key_witness:
  "lang_titles (lit ''ja'') = Inr TITLES_ja \<and>
   screenshot_key (lit ''iPhone 17 Pro Max-99_Extra_Dark.png'') = lit ''99_Extra'' \<and>
   map_of TITLES_ja (lit ''99_Extra'') = None \<and>
   get_title_for_screenshot (lit ''iPhone 17 Pro Max-99_Extra_Dark.png'') (lit ''ja'') = Inr []"
proof -
  have t: "lang_titles (lit ''ja'') = Inr TITLES_ja"
    by (simp add: lang_titles_eq dict_get_def TITLES_def lit_def)
  have k: "screenshot_key (lit ''iPhone 17 Pro Max-99_Extra_Dark.png'') = lit ''99_Extra''"
    by (simp add: eval_defs)
  have m: "map_of TITLES_ja (lit ''99_Extra'') = None"
    by (simp add: TITLES_ja_def lit_def)
  have m': "map_of TITLES_ja (screenshot_key (lit ''iPhone 17 Pro Max-99_Extra_Dark.png'')) = None"
    using k m by simp
  show ?thesis using get_title_unknown_key [OF t m'] t k m by simp
qed

lemma frame_screenshot_fill:
  assumes "frame_screenshot env input_path output_path language = Inr out"
  shows "c_fill out = (if contains (lit ''_Dark'') input_path then (28, 28, 30) else (0, 122, 255))"
  using assms
  by (auto simp add: frame_screenshot_eq and_then_def Let_def
      split: sum.splits option.splits if_splits)

text \<open>
  C5. The background of the output comes from the theme mapping: it is the dark
  colour \<open>#1C1C1E\<close>, RGB (28, 28, 30), exactly when \<open>_Dark\<close> occurs in the input
  path, and the light colour \<open>#007AFF\<close>, RGB (0, 122, 255), otherwise.
\<close>

theorem frame_screenshot_background:
  assumes "frame_screenshot env input_path output_path language = Inr out"
  shows "(contains (lit ''_Dark'') input_path \<longrightarrow>
            and_then (dict_item BACKGROUND_COLORS (lit ''dark'')) hex_to_rgb = Inr (c_fill out) \<and>
            c_fill out = (28, 28, 30)) \<and>
         (\<not> contains (lit ''_Dark'') input_path \<longrightarrow>
            and_then (dict_item BACKGROUND_COLORS (lit ''light'')) hex_to_rgb = Inr (c_fill out) \<and>
            c_fill out = (0, 122, 255)) \<and>
         (c_fill out = (28, 28, 30)) = contains (lit ''_Dark'') input_path"
proof -
  have "c_fill out = (if contains (lit ''_Dark'') input_path then (28, 28, 30) else (0, 122, 255))"
    using assms by (rule frame_screenshot_fill)
  then show ?thesis by (simp add: dark_rgb light_rgb)
qed

theorem frame_screenshot_background_witness:
  "contains (lit ''_Dark'') (lit ''screenshots/ja/iPhone 17 Pro Max-08_Settings_Dark.png'') \<and>
   frame_screenshot example_env (lit ''screenshots/ja/iPhone 17 Pro Max-08_Settings_Dark.png'')
     (lit ''screenshots/ja/iPhone 17 Pro Max-08_Settings_Dark_framed.png'') (lit ''ja'') =
     Inr \<lparr>c_size = (1520, 3200), c_fill = (28, 28, 30),
          c_text = Some ((724, 80), [35373, 23450], ()),
          c_paste = Some (\<lparr>im_size = (1320, 2868)\<rparr>, (100, 232))\<rparr> \<and>
   and_then (dict_item BACKGROUND_COLORS (lit ''dark'')) hex_to_rgb = Inr (28, 28, 30) \<and>
   \<not> contains (lit ''_Dark'') (lit ''screenshots/en-US/iPhone 17 Pro Max-01_NearbyTab.png'') \<and>
   frame_screenshot example_env (lit ''screenshots/en-US/iPhone 17 Pro Max-01_NearbyTab.png'')
     (lit ''screenshots/en-US/iPhone 17 Pro Max-01_NearbyTab_framed.png'') (lit ''en-US'') =
     Inr \<lparr>c_size = (1520, 3200), c_fill = (0, 122, 255),
          c_text = Some ((346, 80), lit ''Discover Nearby Devices'', ()),
          c_paste = Some (\<lparr>im_size = (1320, 2868)\<rparr>, (100, 232))\<rparr> \<and>
   and_then (dict_item BACKGROUND_COLORS (lit ''light'')) hex_to_rgb = Inr (0, 122, 255)"
proof -
  have d: "contains (lit ''_Dark'') (lit ''screenshots/ja/iPhone 17 Pro Max-08_Settings_Dark.png'')"
    by (simp add: lit_def)
  have l: "\<not> contains (lit ''_Dark'') (lit ''screenshots/en-US/iPhone 17 Pro Max-01_NearbyTab.png'')"
    by (simp add: lit_def)
  show ?thesis
    using frame_screenshot_background [OF example_dark] frame_screenshot_background [OF example_light]
      d l example_dark example_light
    by simp
qed

text \<open>
  C6. \<open>TITLES\<close> has exactly 5 languages; the table of every language has exactly the
  13 keys \<open>01_NearbyTab\<close> to \<open>13_GroupDetail\<close>, and no title is empty.
\<close>

theorem TITLES_languages_and_keys:
  "(let keys =
      [lit ''01_NearbyTab'', lit ''02_NearbyTabGrid'', lit ''03_ConnectedTab'',
       lit ''04_ConnectionView'', lit ''05_ChatView'', lit ''06_VoiceCallView'',
       lit ''07_LibraryTab'', lit ''08_Settings'', lit ''09_QuickConnect'',
       lit ''10_FileTransfer'', lit ''11_TransferHistory'', lit ''12_UserProfile'',
       lit ''13_GroupDetail'']
    in map fst TITLES = [lit ''en-US'', lit ''zh-Hant'', lit ''zh-Hans'', lit ''ja'', lit ''ko''] \<and>
       length TITLES = 5 \<and> distinct (map fst TITLES) \<and>
       filter (\<lambda>table. map fst (snd table) \<noteq> keys) TITLES = [] \<and>
       length keys = 13 \<and> distinct keys \<and>
       filter (\<lambda>title. title = []) (concat (map (\<lambda>table. map snd (snd table)) TITLES)) = [])"
  by (simp add: TITLES_def TITLES_en_US_def TITLES_zh_Hant_def TITLES_zh_Hans_def TITLES_ja_def
      TITLES_ko_def lit_def Let_def)


text \<open>
  C7. A title that is not empty is drawn centred: its left x-coordinate is
  \<open>(output_width - text_width) // 2\<close>, where \<open>text_width\<close> is the width of the
  bounding box of the title in the font that \<open>get_font\<close> chose, and its top
  y-coordinate is \<open>TITLE_PADDING\<close>.
\<close>

theorem frame_screenshot_title_position:
  assumes "frame_screenshot env input_path output_path language = Inr out"
      and "get_title_for_screenshot input_path language = Inr title"
      and "title \<noteq> []"
  shows "\<exists>font x0 y0 x1 y1.
           get_font env FONT_SIZE = Inr font \<and>
           textbbox env title font = Inr (x0, y0, x1, y1) \<and>
           c_text out = Some (((fst (c_size out) - (x1 - x0)) div 2, TITLE_PADDING), title, font)"
  using assms
  by (auto simp add: frame_screenshot_eq and_then_def Let_def TITLE_PADDING_def FONT_SIZE_def
      split: sum.splits option.splits if_splits)

lemma example_light_title:
  "get_title_for_screenshot (lit ''screenshots/en-US/iPhone 17 Pro Max-01_NearbyTab.png'')
     (lit ''en-US'') = Inr (lit ''Discover Nearby Devices'')"
  by (simp add: eval_defs)

lemma example_untitled_title:
  "get_title_for_screenshot (lit ''screenshots/en-US/iPhone 17 Pro Max-99_Extra.png'')
     (lit ''en-US'') = Inr []"
  by (simp add: eval_defs)

theorem frame_screenshot_title_position_witness:
  "frame_screenshot example_env (lit ''screenshots/en-US/iPhone 17 Pro Max-01_NearbyTab.png'')
     (lit ''screenshots/en-US/iPhone 17 Pro Max-01_NearbyTab_framed.png'') (lit ''en-US'') =
     Inr \<lparr>c_size = (1520, 3200), c_fill = (0, 122, 255),
          c_text = Some ((346, 80), lit ''Discover Nearby Devices'', ()),
          c_paste = Some (\<lparr>im_size = (1320, 2868)\<rparr>, (100, 232))\<rparr> \<and>
   get_title_for_screenshot (lit ''screenshots/en-US/iPhone 17 Pro Max-01_NearbyTab.png'')
     (lit ''en-US'') = Inr (lit ''Discover Nearby Devices'') \<and>
   lit ''Discover Nearby Devices'' \<noteq> [] \<and>
   get_font example_env FONT_SIZE = Inr () \<and>
   textbbox example_env (lit ''Discover Nearby Devices'') () = Inr (2, 15, 830, 70) \<and>
   (346 :: int) = (1520 - (830 - 2)) div 2 \<and> TITLE_PADDING = 80"
proof -
  have n: "lit ''Discover Nearby Devices'' \<noteq> []"
    by (simp add: lit_def)
  have f: "get_font example_env FONT_SIZE = Inr ()"
    by (simp add: get_font_def font_paths_def example_env_def lit_def)
  have b: "textbbox example_env (lit ''Discover Nearby Devices'') () = Inr (2, 15, 830, 70)"
    by (simp add: example_env_def lit_def)
  show ?thesis
    using frame_screenshot_title_position [OF example_light example_light_title n]
      example_light example_light_title n f b
    by (simp add: TITLE_PADDING_def)
qed

text \<open>
  C8. With an empty title the title band has height 0: the screenshot is pasted at
  \<open>y = 0\<close>, no text is drawn, and the output is \<open>PADDING\<close> higher than the
  screenshot. With a title the output is \<open>2 * TITLE_PADDING + FONT_SIZE + PADDING\<close>
  higher than the screenshot, which is pasted at \<open>y = 2 * TITLE_PADDING + FONT_SIZE\<close>.
\<close>

theorem frame_screenshot_height:
  assumes "frame_screenshot env input_path output_path language = Inr out"
      and "image_open env input_path = Inr screenshot"
      and "get_title_for_screenshot input_path language = Inr title"
  shows "(title = [] \<longrightarrow>
            snd (c_size out) = snd (im_size screenshot) + PADDING \<and>
            c_paste out = Some (screenshot, (PADDING, 0)) \<and>
            c_text out = None) \<and>
         (title \<noteq> [] \<longrightarrow>
            snd (c_size out) = snd (im_size screenshot) + (2 * TITLE_PADDING + FONT_SIZE + PADDING) \<and>
            c_paste out = Some (screenshot, (PADDING, 2 * TITLE_PADDING + FONT_SIZE)))"
  using assms
  by (auto simp add: frame_screenshot_eq and_then_def Let_def PADDING_def TITLE_PADDING_def
      FONT_SIZE_def split: sum.splits option.splits if_splits)

lemma example_open_untitled:
  "image_open example_env (lit ''screenshots/en-US/iPhone 17 Pro Max-99_Extra.png'') =
     Inr \<lparr>im_size = (1320, 2868)\<rparr>"
  by (simp add: example_env_def lit_def)

theorem frame_screenshot_height_witness:
  "frame_screenshot example_env (lit ''screenshots/en-US/iPhone 17 Pro Max-99_Extra.png'')
     (lit ''screenshots/en-US/iPhone 17 Pro Max-99_Extra_framed.png'') (lit ''en-US'') =
     Inr \<lparr>c_size = (1520, 2968), c_fill = (0, 122, 255), c_text = None,
          c_paste = Some (\<lparr>im_size = (1320, 2868)\<rparr>, (100, 0))\<rparr> \<and>
   get_title_for_screenshot (lit ''screenshots/en-US/iPhone 17 Pro Max-99_Extra.png'')
     (lit ''en-US'') = Inr [] \<and>
   (2968 :: int) = 2868 + PADDING \<and>
   frame_screenshot example_env (lit ''screenshots/en-US/iPhone 17 Pro Max-01_NearbyTab.png'')
     (lit ''screenshots/en-US/iPhone 17 Pro Max-01_NearbyTab_framed.png'') (lit ''en-US'') =
     Inr \<lparr>c_size = (1520, 3200), c_fill = (0, 122, 255),
          c_text = Some ((346, 80), lit ''Discover Nearby Devices'', ()),
          c_paste = Some (\<lparr>im_size = (1320, 2868)\<rparr>, (100, 232))\<rparr> \<and>
   get_title_for_screenshot (lit ''screenshots/en-US/iPhone 17 Pro Max-01_NearbyTab.png'')
     (lit ''en-US'') = Inr (lit ''Discover Nearby Devices'') \<and>
   (3200 :: int) = 2868 + (2 * TITLE_PADDING + FONT_SIZE + PADDING) \<and>
   (232 :: int) = 2 * TITLE_PADDING + FONT_SIZE \<and> PADDING = 100"
proof -
  have n: "lit ''Discover Nearby Devices'' \<noteq> []"
    by (simp add: lit_def)
  show ?thesis
    using frame_screenshot_height [OF example_untitled example_open_untitled example_untitled_title]
      frame_screenshot_height [OF example_light example_open example_light_title]
      example_untitled example_untitled_title example_light example_light_title n
    by (simp add: PADDING_def TITLE_PADDING_def FONT_SIZE_def)
qed

text \<open>
  C9. For a language that \<open>TITLES\<close> does not have, the titles are looked up in the
  table of \<open>en-US\<close>: the screenshot gets the English title.
\<close>

theorem unknown_language_gets_en_US:
  assumes "map_of TITLES language = None"
  shows "lang_titles language = Inr TITLES_en_US \<and>
         get_title_for_screenshot filename language =
           get_title_for_screenshot filename (lit ''en-US'') \<and>
         get_title_for_screenshot filename language =
           Inr (dict_get TITLES_en_US (screenshot_key filename) [])"
  using assms
  by (simp add: get_title_eq lang_titles_eq dict_get_def TITLES_def lit_def)

theorem unknown_language_gets_en_US_witness:
  "map_of TITLES (lit ''fr'') = None \<and>
   lang_titles (lit ''fr'') = Inr TITLES_en_US \<and>
   get_title_for_screenshot (lit ''screenshots/fr/iPhone 17 Pro Max-05_ChatView.png'') (lit ''fr'') =
     Inr (lit ''Secure Chat'') \<and>
   get_title_for_screenshot (lit ''screenshots/fr/iPhone 17 Pro Max-05_ChatView.png'') (lit ''en-US'') =
     Inr (lit ''Secure Chat'')"
proof -
  have u: "map_of TITLES (lit ''fr'') = None"
    by (simp add: TITLES_def lit_def)
  have e: "get_title_for_screenshot (lit ''screenshots/fr/iPhone 17 Pro Max-05_ChatView.png'')
             (lit ''en-US'') = Inr (lit ''Secure Chat'')"
    by (simp add: eval_defs)
  show ?thesis
    using unknown_language_gets_en_US
      [OF u, of "lit ''screenshots/fr/iPhone 17 Pro Max-05_ChatView.png''"] u e
    by simp
qed


section \<open>Taking \<open>_Dark\<close> out of a key\<close>

text \<open>
  From here on the equation of \<open>replace\<close> is applied one step at a time.
\<close>

declare replace.simps [simp del]

lemma is_prefix_append: "is_prefix p s \<Longrightarrow> is_prefix p (s @ t)"
  by (induction p s rule: is_prefix.induct) auto

lemma is_prefix_length: "is_prefix p s \<Longrightarrow> length p \<le> length s"
  by (induction p s rule: is_prefix.induct) auto

lemma Dark_no_overlap:
  assumes "s \<noteq> []" and "\<not> is_prefix (lit ''_Dark'') s"
  shows "\<not> is_prefix (lit ''_Dark'') (s @ lit ''_Dark'')"
  using assms
  apply (simp add: lit_def)
  apply (cases s; simp)
  subgoal for a s1
    apply (cases s1; simp)
    subgoal for b s2
      apply (cases s2; simp)
      subgoal for c s3
        apply (cases s3; simp)
        subgoal for d s4
          apply (cases s4; simp)
          done
        done
      done
    done
  done

lemma replace_Nil: "old \<noteq> [] \<Longrightarrow> replace old new [] = []"
  by (subst replace.simps) simp

lemma replace_match:
  "old \<noteq> [] \<Longrightarrow> s \<noteq> [] \<Longrightarrow> is_prefix old s \<Longrightarrow>
     replace old new s = new @ replace old new (drop (length old) s)"
  by (subst replace.simps) simp

lemma replace_skip:
  "old \<noteq> [] \<Longrightarrow> \<not> is_prefix old (c # cs) \<Longrightarrow>
     replace old new (c # cs) = c # replace old new cs"
  by (subst replace.simps) simp

lemma Dark_nonempty: "lit ''_Dark'' \<noteq> []" and Dark_length: "length (lit ''_Dark'') = 5"
  by (simp_all add: lit_def)

lemma replace_Dark_suffix:
  "replace (lit ''_Dark'') [] (s @ lit ''_Dark'') = replace (lit ''_Dark'') [] s"
proof (induction s rule: length_induct)
  case (1 s)
  show ?case
  proof (cases "s = []")
    case True
    have "is_prefix (lit ''_Dark'') (lit ''_Dark'')"
      by (simp add: lit_def)
    then have "replace (lit ''_Dark'') [] (lit ''_Dark'') = replace (lit ''_Dark'') [] []"
      using replace_match [OF Dark_nonempty Dark_nonempty, of "[]"] by (simp add: Dark_length)
    then show ?thesis using True by simp
  next
    case False
    show ?thesis
    proof (cases "is_prefix (lit ''_Dark'') s")
      case True
      then have len: "5 \<le> length s"
        using is_prefix_length [of "lit ''_Dark''" s] by (simp add: Dark_length)
      have p: "is_prefix (lit ''_Dark'') (s @ lit ''_Dark'')"
        using True by (rule is_prefix_append)
      have "replace (lit ''_Dark'') [] (s @ lit ''_Dark'') =
            replace (lit ''_Dark'') [] (drop 5 s @ lit ''_Dark'')"
        using replace_match [OF Dark_nonempty _ p, of "[]"] False len by (simp add: Dark_length)
      also have "\<dots> = replace (lit ''_Dark'') [] (drop 5 s)"
        using 1 len by simp
      also have "\<dots> = replace (lit ''_Dark'') [] s"
        using replace_match [OF Dark_nonempty False True, of "[]"] by (simp add: Dark_length)
      finally show ?thesis .
    next
      case np: False
      have np': "\<not> is_prefix (lit ''_Dark'') (s @ lit ''_Dark'')"
        using False np by (rule Dark_no_overlap)
      obtain c cs where s: "s = c # cs" using False by (cases s) auto
      have "replace (lit ''_Dark'') [] (s @ lit ''_Dark'') =
            c # replace (lit ''_Dark'') [] (cs @ lit ''_Dark'')"
        using replace_skip [OF Dark_nonempty, of c "cs @ lit ''_Dark''" "[]"] np' s by simp
      also have "\<dots> = c # replace (lit ''_Dark'') [] cs"
        using 1 s by simp
      also have "\<dots> = replace (lit ''_Dark'') [] s"
        using replace_skip [OF Dark_nonempty, of c cs "[]"] np s by simp
      finally show ?thesis .
    qed
  qed
qed

text \<open>
  C10. The dark variant of a screenshot gets the title of its light counterpart: a
  name whose key part is \<open>K_Dark\<close> and a name whose key part is \<open>K\<close> have the same
  title in every language, since \<open>_Dark\<close> is taken out of the key before the lookup.
\<close>

theorem dark_variant_same_title:
  assumes "key_part dark_name = key_part light_name @ lit ''_Dark''"
  shows "get_title_for_screenshot dark_name language =
         get_title_for_screenshot light_name language"
  using assms by (simp add: get_title_eq screenshot_key_def replace_Dark_suffix)

theorem dark_variant_same_title_witness:
  "key_part (lit ''screenshots/ko/iPhone 17 Pro Max-08_Settings_Dark.png'') =
     key_part (lit ''screenshots/ko/iPhone 17 Pro Max-08_Settings.png'') @ lit ''_Dark'' \<and>
   get_title_for_screenshot (lit ''screenshots/ko/iPhone 17 Pro Max-08_Settings_Dark.png'') (lit ''ko'') =
     Inr [49444, 51221] \<and>
   get_title_for_screenshot (lit ''screenshots/ko/iPhone 17 Pro Max-08_Settings.png'') (lit ''ko'') =
     Inr [49444, 51221]"
proof -
  have k: "key_part (lit ''screenshots/ko/iPhone 17 Pro Max-08_Settings_Dark.png'') =
           key_part (lit ''screenshots/ko/iPhone 17 Pro Max-08_Settings.png'') @ lit ''_Dark''"
    by (simp add: eval_defs replace.simps)
  have t: "get_title_for_screenshot (lit ''screenshots/ko/iPhone 17 Pro Max-08_Settings.png'')
             (lit ''ko'') = Inr [49444, 51221]"
    by (simp add: eval_defs TITLES_ko_def replace.simps)
  show ?thesis
    using dark_variant_same_title [OF k, of "lit ''ko''"] k t by simp
qed

section \<open>The batch: which files are framed\<close>

lemma process_file_submitted:
  "submitted (snd (process_file env dir language name st)) =
     submitted st @
     (if \<not> contains (lit ''_framed'') name \<and> \<not> contains (lit ''background'') (lower env name)
      then [(joinpath dir name, joinpath dir (stem_of_name name @ lit ''_framed.png''), language)]
      else [])"
  by (simp add: process_file_def Let_def split: sum.splits option.splits prod.splits)

lemma process_files_submitted:
  "prefix (submitted (snd (process_files env dir language names st)))
     (submitted st @
      map (\<lambda>name. (joinpath dir name, joinpath dir (stem_of_name name @ lit ''_framed.png''), language))
        (filter (\<lambda>name. \<not> contains (lit ''_framed'') name \<and>
                         \<not> contains (lit ''background'') (lower env name)) names)) \<and>
   (fst (process_files env dir language names st) = None \<longrightarrow>
      submitted (snd (process_files env dir language names st)) =
      submitted st @
      map (\<lambda>name. (joinpath dir name, joinpath dir (stem_of_name name @ lit ''_framed.png''), language))
        (filter (\<lambda>name. \<not> contains (lit ''_framed'') name \<and>
                         \<not> contains (lit ''background'') (lower env name)) names))"
proof (induction names arbitrary: st)
  case Nil
  show ?case by simp
next
  case (Cons name names)
  obtain r st1 where p: "process_file env dir language name st = (r, st1)"
    by (cases "process_file env dir language name st")
  have s1: "submitted st1 =
     submitted st @
     (if \<not> contains (lit ''_framed'') name \<and> \<not> contains (lit ''background'') (lower env name)
      then [(joinpath dir name, joinpath dir (stem_of_name name @ lit ''_framed.png''), language)]
      else [])"
    using process_file_submitted [of env dir language name st] p by simp
  show ?case
  proof (cases r)
    case (Some x)
    then show ?thesis using p s1 by simp
  next
    case None
    then show ?thesis using p s1 Cons.IH [of st1] by (auto split: if_splits)
  qed
qed

lemma process_lang_dir_submitted:
  "prefix (submitted (snd (process_lang_dir env screenshots_path d st)))
     (submitted st @
      (if d_is_dir d
       then map (\<lambda>name. (joinpath (joinpath screenshots_path (d_name d)) name,
                       joinpath (joinpath screenshots_path (d_name d))
                         (stem_of_name name @ lit ''_framed.png''),
                       d_name d))
          (filter (\<lambda>name. \<not> contains (lit ''_framed'') name \<and>
                           \<not> contains (lit ''background'') (lower env name)) (d_png d))
       else [])) \<and>
   (fst (process_lang_dir env screenshots_path d st) = None \<longrightarrow>
      submitted (snd (process_lang_dir env screenshots_path d st)) =
      submitted st @
      (if d_is_dir d
       then map (\<lambda>name. (joinpath (joinpath screenshots_path (d_name d)) name,
                       joinpath (joinpath screenshots_path (d_name d))
                         (stem_of_name name @ lit ''_framed.png''),
                       d_name d))
          (filter (\<lambda>name. \<not> contains (lit ''_framed'') name \<and>
                           \<not> contains (lit ''background'') (lower env name)) (d_png d))
       else []))"
  using process_files_submitted
    [of env "joinpath screenshots_path (d_name d)" "d_name d" "d_png d"
        "st\<lparr>stdout := stdout st @ [Processing (d_name d)]\<rparr>"]
  by (simp add: process_lang_dir_def Let_def split: option.splits)

lemma prefix_append_more: "prefix xs (a @ b) \<Longrightarrow> prefix xs (a @ b @ c)"
  using prefix_prefix [of xs "a @ b" c] by simp

lemma process_lang_dirs_submitted:
  "prefix (submitted (snd (process_lang_dirs env screenshots_path ds st)))
     (submitted st @ concat (map (\<lambda>d.
        map (\<lambda>name. (joinpath (joinpath screenshots_path (d_name d)) name,
                       joinpath (joinpath screenshots_path (d_name d))
                         (stem_of_name name @ lit ''_framed.png''),
                       d_name d))
          (filter (\<lambda>name. \<not> contains (lit ''_framed'') name \<and>
                           \<not> contains (lit ''background'') (lower env name)) (d_png d))) (filter d_is_dir ds))) \<and>
   (fst (process_lang_dirs env screenshots_path ds st) = None \<longrightarrow>
      submitted (snd (process_lang_dirs env screenshots_path ds st)) =
      submitted st @ concat (map (\<lambda>d.
        map (\<lambda>name. (joinpath (joinpath screenshots_path (d_name d)) name,
                       joinpath (joinpath screenshots_path (d_name d))
                         (stem_of_name name @ lit ''_framed.png''),
                       d_name d))
          (filter (\<lambda>name. \<not> contains (lit ''_framed'') name \<and>
                           \<not> contains (lit ''background'') (lower env name)) (d_png d))) (filter d_is_dir ds)))"
proof (induction ds arbitrary: st)
  case Nil
  show ?case by simp
next
  case (Cons d ds)
  obtain r st1 where p: "process_lang_dir env screenshots_path d st = (r, st1)"
    by (cases "process_lang_dir env screenshots_path d st")
  show ?case
  proof (cases r)
    case (Some x)
    then show ?thesis
      using p process_lang_dir_submitted [of env screenshots_path d st]
      by (auto split: if_splits intro: prefix_append_more)
  next
    case None
    then show ?thesis
      using p process_lang_dir_submitted [of env screenshots_path d st] Cons.IH [of st1]
      by (auto split: if_splits)
  qed
qed

text \<open>The sample runs, evaluated.\<close>

lemma example_paths:
  "joinpath (lit ''screenshots'') (lit ''en-US'') = lit ''screenshots/en-US''"
  "joinpath (lit ''screenshots'') (lit ''ja'') = lit ''screenshots/ja''"
  "joinpath (lit ''screenshots/en-US'') (lit ''iPhone 17 Pro Max-01_NearbyTab.png'') =
     lit ''screenshots/en-US/iPhone 17 Pro Max-01_NearbyTab.png''"
  "joinpath (lit ''screenshots/en-US'')
       (stem_of_name (lit ''iPhone 17 Pro Max-01_NearbyTab.png'') @ lit ''_framed.png'') =
     lit ''screenshots/en-US/iPhone 17 Pro Max-01_NearbyTab_framed.png''"
  "joinpath (lit ''screenshots/en-US'') (lit ''broken.png'') = lit ''screenshots/en-US/broken.png''"
  "joinpath (lit ''screenshots/en-US'') (stem_of_name (lit ''broken.png'') @ lit ''_framed.png'') =
     lit ''screenshots/en-US/broken_framed.png''"
  "joinpath (lit ''screenshots/en-US'') (lit ''iPhone 17 Pro Max-99_Extra.png'') =
     lit ''screenshots/en-US/iPhone 17 Pro Max-99_Extra.png''"
  "joinpath (lit ''screenshots/en-US'')
       (stem_of_name (lit ''iPhone 17 Pro Max-99_Extra.png'') @ lit ''_framed.png'') =
     lit ''screenshots/en-US/iPhone 17 Pro Max-99_Extra_framed.png''"
  "joinpath (lit ''screenshots/ja'') (lit ''iPhone 17 Pro Max-08_Settings_Dark.png'') =
     lit ''screenshots/ja/iPhone 17 Pro Max-08_Settings_Dark.png''"
  "joinpath (lit ''screenshots/ja'')
       (stem_of_name (lit ''iPhone 17 Pro Max-08_Settings_Dark.png'') @ lit ''_framed.png'') =
     lit ''screenshots/ja/iPhone 17 Pro Max-08_Settings_Dark_framed.png''"
  by (simp_all add: joinpath_def stem_of_name_def lit_def)

lemma example_names:
  "\<not> contains (lit ''_framed'') (lit ''iPhone 17 Pro Max-01_NearbyTab.png'')"
  "\<not> contains (lit ''background'') (lower env0 (lit ''iPhone 17 Pro Max-01_NearbyTab.png''))"
  "contains (lit ''_framed'') (lit ''iPhone 17 Pro Max-01_NearbyTab_framed.png'')"
  "\<not> contains (lit ''_framed'') (lit ''broken.png'')"
  "\<not> contains (lit ''background'') (lower env0 (lit ''broken.png''))"
  "\<not> contains (lit ''_framed'') (lit ''Background.png'')"
  "contains (lit ''background'') (lower env0 (lit ''Background.png''))"
  "\<not> contains (lit ''_framed'') (lit ''iPhone 17 Pro Max-99_Extra.png'')"
  "\<not> contains (lit ''background'') (lower env0 (lit ''iPhone 17 Pro Max-99_Extra.png''))"
  "\<not> contains (lit ''_framed'') (lit ''iPhone 17 Pro Max-08_Settings_Dark.png'')"
  "\<not> contains (lit ''background'') (lower env0 (lit ''iPhone 17 Pro Max-08_Settings_Dark.png''))"
  by (simp_all add: lower_def ascii_lower_def lit_def)

lemma example_listing:
  "path_exists example_env (lit ''screenshots'')"
  "iterdir example_env (lit ''screenshots'') = Inr
       [\<lparr>d_name = lit ''en-US'', d_is_dir = True,
         d_png = [lit ''iPhone 17 Pro Max-01_NearbyTab.png'',
                  lit ''iPhone 17 Pro Max-01_NearbyTab_framed.png'',
                  lit ''broken.png'',
                  lit ''Background.png'',
                  lit ''iPhone 17 Pro Max-99_Extra.png'']\<rparr>,
        \<lparr>d_name = lit ''README.md'', d_is_dir = False, d_png = []\<rparr>,
        \<lparr>d_name = lit ''ja'', d_is_dir = True,
         d_png = [lit ''iPhone 17 Pro Max-08_Settings_Dark.png'']\<rparr>]"
  "stdout_write example_env l = None"
  by (simp_all add: example_env_def)

lemma example_run:
  "process_screenshots example_env (lit ''screenshots'') =
     (Inr True,
      \<lparr>processed = 3, skipped = 1,
      stdout = [Processing (lit ''en-US''),
          Framed (lit ''iPhone 17 Pro Max-01_NearbyTab.png''),
          Failed (lit ''broken.png'') (Raised (lit ''cannot identify image file'')),
          Framed (lit ''iPhone 17 Pro Max-99_Extra.png''),
          Processing (lit ''ja''),
          Framed (lit ''iPhone 17 Pro Max-08_Settings_Dark.png''),
          Done 3 1],
      submitted = [(lit ''screenshots/en-US/iPhone 17 Pro Max-01_NearbyTab.png'',
           lit ''screenshots/en-US/iPhone 17 Pro Max-01_NearbyTab_framed.png'', lit ''en-US''),
          (lit ''screenshots/en-US/broken.png'',
           lit ''screenshots/en-US/broken_framed.png'', lit ''en-US''),
          (lit ''screenshots/en-US/iPhone 17 Pro Max-99_Extra.png'',
           lit ''screenshots/en-US/iPhone 17 Pro Max-99_Extra_framed.png'', lit ''en-US''),
          (lit ''screenshots/ja/iPhone 17 Pro Max-08_Settings_Dark.png'',
           lit ''screenshots/ja/iPhone 17 Pro Max-08_Settings_Dark_framed.png'', lit ''ja'')],
      saved = [(lit ''screenshots/en-US/iPhone 17 Pro Max-01_NearbyTab_framed.png'',
           \<lparr>c_size = (1520, 3200), c_fill = (0, 122, 255),
            c_text = Some ((346, 80), lit ''Discover Nearby Devices'', ()),
            c_paste = Some (\<lparr>im_size = (1320, 2868)\<rparr>, (100, 232))\<rparr>),
          (lit ''screenshots/en-US/iPhone 17 Pro Max-99_Extra_framed.png'',
           \<lparr>c_size = (1520, 2968), c_fill = (0, 122, 255), c_text = None,
            c_paste = Some (\<lparr>im_size = (1320, 2868)\<rparr>, (100, 0))\<rparr>),
          (lit ''screenshots/ja/iPhone 17 Pro Max-08_Settings_Dark_framed.png'',
           \<lparr>c_size = (1520, 3200), c_fill = (28, 28, 30),
            c_text = Some ((724, 80), [35373, 23450], ()),
            c_paste = Some (\<lparr>im_size = (1320, 2868)\<rparr>, (100, 232))\<rparr>)]\<rparr>)"
  by (simp add: process_screenshots_def example_listing Let_def process_lang_dir_def
      process_file_def example_names example_paths example_light example_broken
      example_untitled example_dark)

lemma ascii_stdout_broken:
  "frame_screenshot ascii_stdout_env (lit ''screenshots/en-US/broken.png'')
     (lit ''screenshots/en-US/broken_framed.png'') (lit ''en-US'') =
   Inl (Raised (lit ''cannot identify image file''))"
  by (simp add: frame_screenshot_eq eval_defs ascii_stdout_env_def)

lemma ascii_stdout_listing:
  "iterdir ascii_stdout_env (lit ''screenshots'') = Inr
     [\<lparr>d_name = lit ''en-US'', d_is_dir = True,
       d_png = [lit ''broken.png'', lit ''iPhone 17 Pro Max-01_NearbyTab.png'']\<rparr>]"
  "path_exists ascii_stdout_env (lit ''screenshots'')"
  "stdout_write ascii_stdout_env (Processing (lit ''en-US'')) = None"
  "stdout_write ascii_stdout_env
     (Failed (lit ''broken.png'') (Raised (lit ''cannot identify image file''))) =
   Some (Raised (lit ''UnicodeEncodeError''))"
  by (simp_all add: ascii_stdout_env_def example_env_def)

lemma ascii_stdout_run:
  "process_screenshots ascii_stdout_env (lit ''screenshots'') =
     (Inl (Raised (lit ''UnicodeEncodeError'')),
      \<lparr>processed = 0, skipped = 0,
       stdout = [Processing (lit ''en-US'')],
       submitted = [(lit ''screenshots/en-US/broken.png'',
                     lit ''screenshots/en-US/broken_framed.png'', lit ''en-US'')],
       saved = []\<rparr>)"
  by (simp add: process_screenshots_def ascii_stdout_listing Let_def process_lang_dir_def
      process_file_def example_names example_paths ascii_stdout_broken)

text \<open>
  C2, as the code has it. Of the PNG files of the language directories,
  \<open>process_screenshots\<close> gives to \<open>frame_screenshot\<close>, in the order of the listing,
  the files whose name does not contain \<open>_framed\<close> and whose name in lower case does
  not contain \<open>background\<close>, and no other file: what was submitted at any end of the
  run is an initial part of that list, and the whole list when the run returns
  \<open>True\<close>. A file that is passed over changes nothing.
\<close>

theorem process_screenshots_frames_exactly:
  assumes "path_exists env screenshots_path"
      and "iterdir env screenshots_path = Inr entries"
  shows "prefix (submitted (snd (process_screenshots env screenshots_path)))
           (concat (map (\<lambda>d.
                map (\<lambda>name. (joinpath (joinpath screenshots_path (d_name d)) name,
                               joinpath (joinpath screenshots_path (d_name d))
                                 (stem_of_name name @ lit ''_framed.png''),
                               d_name d))
                  (filter (\<lambda>name. \<not> contains (lit ''_framed'') name \<and>
                                   \<not> contains (lit ''background'') (lower env name))
                     (d_png d)))
              (filter d_is_dir entries))) \<and>
         (fst (process_screenshots env screenshots_path) = Inr True \<longrightarrow>
            submitted (snd (process_screenshots env screenshots_path)) =
            concat (map (\<lambda>d.
                map (\<lambda>name. (joinpath (joinpath screenshots_path (d_name d)) name,
                               joinpath (joinpath screenshots_path (d_name d))
                                 (stem_of_name name @ lit ''_framed.png''),
                               d_name d))
                  (filter (\<lambda>name. \<not> contains (lit ''_framed'') name \<and>
                                   \<not> contains (lit ''background'') (lower env name))
                     (d_png d)))
              (filter d_is_dir entries))) \<and>
         (process_file env dir language name st = (None, st)) =
           (contains (lit ''_framed'') name \<or> contains (lit ''background'') (lower env name))"
proof -
  have batch:
    "prefix (submitted (snd (process_screenshots env screenshots_path)))
           (concat (map (\<lambda>d.
                map (\<lambda>name. (joinpath (joinpath screenshots_path (d_name d)) name,
                               joinpath (joinpath screenshots_path (d_name d))
                                 (stem_of_name name @ lit ''_framed.png''),
                               d_name d))
                  (filter (\<lambda>name. \<not> contains (lit ''_framed'') name \<and>
                                   \<not> contains (lit ''background'') (lower env name))
                     (d_png d)))
              (filter d_is_dir entries))) \<and>
         (fst (process_screenshots env screenshots_path) = Inr True \<longrightarrow>
            submitted (snd (process_screenshots env screenshots_path)) =
            concat (map (\<lambda>d.
                map (\<lambda>name. (joinpath (joinpath screenshots_path (d_name d)) name,
                               joinpath (joinpath screenshots_path (d_name d))
                                 (stem_of_name name @ lit ''_framed.png''),
                               d_name d))
                  (filter (\<lambda>name. \<not> contains (lit ''_framed'') name \<and>
                                   \<not> contains (lit ''background'') (lower env name))
                     (d_png d)))
              (filter d_is_dir entries)))"
    using assms process_lang_dirs_submitted
      [of env screenshots_path entries
          "\<lparr>processed = 0, skipped = 0, stdout = [], submitted = [], saved = []\<rparr>"]
    by (auto simp add: process_screenshots_def Let_def split: prod.splits option.splits)
  have one: "(process_file env dir language name st = (None, st)) =
               (contains (lit ''_framed'') name \<or> contains (lit ''background'') (lower env name))"
  proof
    assume "process_file env dir language name st = (None, st)"
    then have "submitted (snd (process_file env dir language name st)) = submitted st"
      by simp
    then show "contains (lit ''_framed'') name \<or> contains (lit ''background'') (lower env name)"
      using process_file_submitted [of env dir language name st] by (simp split: if_splits)
  next
    assume "contains (lit ''_framed'') name \<or> contains (lit ''background'') (lower env name)"
    then show "process_file env dir language name st = (None, st)"
      by (auto simp add: process_file_def)
  qed
  show ?thesis using batch one by blast
qed

theorem process_screenshots_frames_exactly_witness:
  "path_exists example_env (lit ''screenshots'') \<and>
   iterdir example_env (lit ''screenshots'') = Inr
         [\<lparr>d_name = lit ''en-US'', d_is_dir = True,
           d_png = [lit ''iPhone 17 Pro Max-01_NearbyTab.png'',
                    lit ''iPhone 17 Pro Max-01_NearbyTab_framed.png'',
                    lit ''broken.png'',
                    lit ''Background.png'',
                    lit ''iPhone 17 Pro Max-99_Extra.png'']\<rparr>,
          \<lparr>d_name = lit ''README.md'', d_is_dir = False, d_png = []\<rparr>,
          \<lparr>d_name = lit ''ja'', d_is_dir = True,
           d_png = [lit ''iPhone 17 Pro Max-08_Settings_Dark.png'']\<rparr>] \<and>
   fst (process_screenshots example_env (lit ''screenshots'')) = Inr True \<and>
   submitted (snd (process_screenshots example_env (lit ''screenshots''))) =
     [(lit ''screenshots/en-US/iPhone 17 Pro Max-01_NearbyTab.png'',
          lit ''screenshots/en-US/iPhone 17 Pro Max-01_NearbyTab_framed.png'', lit ''en-US''),
         (lit ''screenshots/en-US/broken.png'',
          lit ''screenshots/en-US/broken_framed.png'', lit ''en-US''),
         (lit ''screenshots/en-US/iPhone 17 Pro Max-99_Extra.png'',
          lit ''screenshots/en-US/iPhone 17 Pro Max-99_Extra_framed.png'', lit ''en-US''),
         (lit ''screenshots/ja/iPhone 17 Pro Max-08_Settings_Dark.png'',
          lit ''screenshots/ja/iPhone 17 Pro Max-08_Settings_Dark_framed.png'', lit ''ja'')] \<and>
   contains (lit ''_framed'') (lit ''iPhone 17 Pro Max-01_NearbyTab_framed.png'') \<and>
   process_file example_env (lit ''screenshots/en-US'') (lit ''en-US'')
     (lit ''iPhone 17 Pro Max-01_NearbyTab_framed.png'')
     \<lparr>processed = 1, skipped = 0, stdout = [], submitted = [], saved = []\<rparr> =
     (None, \<lparr>processed = 1, skipped = 0, stdout = [], submitted = [], saved = []\<rparr>)"
proof -
  note whole = process_screenshots_frames_exactly
      [OF example_listing(1) example_listing(2), of "lit ''screenshots/en-US''" "lit ''en-US''"
        "lit ''iPhone 17 Pro Max-01_NearbyTab_framed.png''"
        "\<lparr>processed = 1, skipped = 0, stdout = [], submitted = [], saved = []\<rparr>"]
  have passed_over:
    "process_file example_env (lit ''screenshots/en-US'') (lit ''en-US'')
       (lit ''iPhone 17 Pro Max-01_NearbyTab_framed.png'')
       \<lparr>processed = 1, skipped = 0, stdout = [], submitted = [], saved = []\<rparr> =
     (None, \<lparr>processed = 1, skipped = 0, stdout = [], submitted = [], saved = []\<rparr>)"
    using whole [THEN conjunct2, THEN conjunct2] example_names(3) by simp
  show ?thesis
    using passed_over example_listing(1) example_listing(2) example_names(3) example_run
    by simp
qed

text \<open>
  C2 as stated fails twice. \<open>Background.png\<close> is a PNG file of the directory
  \<open>en-US\<close>, its name contains neither \<open>_framed\<close> nor \<open>background\<close>, and the sample
  run, which returns \<open>True\<close>, does not submit it, because the name is compared in
  lower case. And under a standard output that encodes ASCII only, the run is ended by
  the exception of a \<open>print\<close> before the second file of \<open>en-US\<close>, whose name
  contains neither, is submitted.
\<close>

theorem not_all_others_are_framed_counterexample:
  "iterdir example_env (lit ''screenshots'') = Inr
         [\<lparr>d_name = lit ''en-US'', d_is_dir = True,
           d_png = [lit ''iPhone 17 Pro Max-01_NearbyTab.png'',
                    lit ''iPhone 17 Pro Max-01_NearbyTab_framed.png'',
                    lit ''broken.png'',
                    lit ''Background.png'',
                    lit ''iPhone 17 Pro Max-99_Extra.png'']\<rparr>,
          \<lparr>d_name = lit ''README.md'', d_is_dir = False, d_png = []\<rparr>,
          \<lparr>d_name = lit ''ja'', d_is_dir = True,
           d_png = [lit ''iPhone 17 Pro Max-08_Settings_Dark.png'']\<rparr>] \<and>
   \<not> contains (lit ''_framed'') (lit ''Background.png'') \<and>
   \<not> contains (lit ''background'') (lit ''Background.png'') \<and>
   fst (process_screenshots example_env (lit ''screenshots'')) = Inr True \<and>
   submitted (snd (process_screenshots example_env (lit ''screenshots''))) =
     [(lit ''screenshots/en-US/iPhone 17 Pro Max-01_NearbyTab.png'',
          lit ''screenshots/en-US/iPhone 17 Pro Max-01_NearbyTab_framed.png'', lit ''en-US''),
         (lit ''screenshots/en-US/broken.png'',
          lit ''screenshots/en-US/broken_framed.png'', lit ''en-US''),
         (lit ''screenshots/en-US/iPhone 17 Pro Max-99_Extra.png'',
          lit ''screenshots/en-US/iPhone 17 Pro Max-99_Extra_framed.png'', lit ''en-US''),
         (lit ''screenshots/ja/iPhone 17 Pro Max-08_Settings_Dark.png'',
          lit ''screenshots/ja/iPhone 17 Pro Max-08_Settings_Dark_framed.png'', lit ''ja'')] \<and>
   iterdir ascii_stdout_env (lit ''screenshots'') = Inr
     [\<lparr>d_name = lit ''en-US'', d_is_dir = True,
       d_png = [lit ''broken.png'', lit ''iPhone 17 Pro Max-01_NearbyTab.png'']\<rparr>] \<and>
   \<not> contains (lit ''_framed'') (lit ''iPhone 17 Pro Max-01_NearbyTab.png'') \<and>
   \<not> contains (lit ''background'') (lit ''iPhone 17 Pro Max-01_NearbyTab.png'') \<and>
   \<not> contains (lit ''background'')
       (lower ascii_stdout_env (lit ''iPhone 17 Pro Max-01_NearbyTab.png'')) \<and>
   submitted (snd (process_screenshots ascii_stdout_env (lit ''screenshots''))) =
     [(lit ''screenshots/en-US/broken.png'',
       lit ''screenshots/en-US/broken_framed.png'', lit ''en-US'')]"
proof -
  have "\<not> contains (lit ''background'') (lit ''Background.png'')"
       "\<not> contains (lit ''background'') (lit ''iPhone 17 Pro Max-01_NearbyTab.png'')"
    by (simp_all add: lit_def)
  then show ?thesis
    using example_listing(2) example_names(1) example_names(2) [of ascii_stdout_env]
      example_names(6) example_run ascii_stdout_listing(1) ascii_stdout_run
    by simp
qed

section \<open>The batch: what a failure does\<close>








end
